theory Spec2Isabelle
  imports Complex_Main "HOL-Library.Multiset"
begin

section \<open>Contract billing: a shallow embedding of contract.py\<close>

text \<open>
  The three contract classes of \<^verbatim>\<open>contract.py\<close> (\<^verbatim>\<open>MTMContract\<close>,
  \<^verbatim>\<open>TermContract\<close>, \<^verbatim>\<open>PrepaidContract\<close>) and their base class
  \<^verbatim>\<open>Contract\<close> are embedded as records and functions on them. A method that
  mutates \<^verbatim>\<open>self\<close> returns the updated record; a method that raises returns
  \<open>Inl\<close> of the exception.

  Numbers. Minute counts are Python ints and are modelled as \<open>int\<close>. Amounts of money
  are Python floats (and ints mixed with floats); they are modelled as exact rationals, so
  the rounding of additions and multiplications of amounts is not part of the model. The
  one place where a float decides an integer is \<^verbatim>\<open>ceil(call.duration / 60.0)\<close>:
  there the conversion of the int to a double, the division of doubles and the ceiling are
  modelled with the rounding of IEEE 754 binary64 (round to nearest, ties to even).
\<close>

subsection \<open>Exceptions\<close>

datatype error = AttributeError | ValueError | OverflowError

subsection \<open>Dates (datetime.date)\<close>

record date =
  year :: int
  month :: int
  day :: int

definition is_leap :: "int \<Rightarrow> bool" where
  "is_leap y = (if y mod 4 = 0 then (if y mod 100 = 0 then y mod 400 = 0 else True) else False)"

definition days_in_month :: "int \<Rightarrow> int \<Rightarrow> int" where
  "days_in_month y m =
     (if m = 2 then (if is_leap y then 29 else 28)
      else if m = 4 \<or> m = 6 \<or> m = 9 \<or> m = 11 then 30 else 31)"

text \<open>\<^verbatim>\<open>datetime.date(year, month, day)\<close>: raises ValueError outside the calendar.\<close>

definition date_new :: "int \<Rightarrow> int \<Rightarrow> int \<Rightarrow> error + date" where
  "date_new y m d =
     (if 1 \<le> y \<and> y \<le> 9999 \<and> 1 \<le> m \<and> m \<le> 12 \<and> 1 \<le> d \<and> d \<le> days_in_month y m
      then Inr \<lparr>year = y, month = m, day = d\<rparr>
      else Inl ValueError)"

text \<open>\<^verbatim>\<open>a <= b\<close> on dates: the order of (year, month, day).\<close>

definition date_le :: "date \<Rightarrow> date \<Rightarrow> bool" where
  "date_le a b =
     (year a < year b \<or>
      (year a = year b \<and> (month a < month b \<or> (month a = month b \<and> day a \<le> day b))))"

subsection \<open>The float conversion of a duration to minutes\<close>

text \<open>Python's \<^verbatim>\<open>int.bit_length\<close> for a non-negative int.\<close>

function bit_length :: "int \<Rightarrow> nat" where
  "bit_length n = (if n \<le> 0 then 0 else Suc (bit_length (n div 2)))"
  by pat_completeness auto
termination
  by (relation "measure nat") auto

text \<open>The binary exponent of a positive rational \<open>x\<close>: the \<open>e\<close> with
  \<open>2^e \<le> x < 2^(e+1)\<close>.\<close>

definition binary_exponent :: "rat \<Rightarrow> int" where
  "binary_exponent x =
     (if 1 \<le> x then int (bit_length \<lfloor>x\<rfloor>) - 1
      else - int (bit_length (\<lceil>1 / x\<rceil> - 1)))"

definition scale2 :: "rat \<Rightarrow> int \<Rightarrow> rat" where
  "scale2 x e = (if 0 \<le> e then x * 2 ^ nat e else x / 2 ^ nat (- e))"

definition round_half_even :: "rat \<Rightarrow> int" where
  "round_half_even x =
     (let f = \<lfloor>x\<rfloor>; r = x - of_int f
      in if r < 1 / 2 then f
         else if 1 / 2 < r then f + 1
         else if even f then f else f + 1)"

text \<open>The binary64 value nearest to a rational (53 significant bits, least exponent
  \<open>-1074\<close>), before the check for overflow.\<close>

definition double_round :: "rat \<Rightarrow> rat" where
  "double_round x =
     (if x = 0 then 0
      else let e = max (binary_exponent \<bar>x\<bar> - 52) (- 1074)
           in scale2 (of_int (round_half_even (scale2 x (- e)))) e)"

text \<open>The conversion of an int to a float, as the true division \<^verbatim>\<open>int / float\<close>
  does it: OverflowError when the int is too large for a double.\<close>

definition int_to_double :: "int \<Rightarrow> error + rat" where
  "int_to_double d =
     (let r = double_round (of_int d)
      in if 2 ^ 1024 \<le> \<bar>r\<bar> then Inl OverflowError else Inr r)"

text \<open>\<^verbatim>\<open>ceil(call.duration / 60.0)\<close>, the expression all three
  \<^verbatim>\<open>bill_call\<close> methods use.\<close>

definition call_minutes :: "int \<Rightarrow> error + int" where
  "call_minutes d =
     (case int_to_double d of
        Inl e \<Rightarrow> Inl e
      | Inr f \<Rightarrow> Inr \<lceil>double_round (f / 60)\<rceil>)"

subsection \<open>Calls\<close>

text \<open>Of a \<^verbatim>\<open>Call\<close>, contract.py reads the duration only (seconds).\<close>

record Call =
  duration :: int

subsection \<open>Bills\<close>

text \<open>Modelled from the spec: the class \<^verbatim>\<open>Bill\<close> of bill.py, which contract.py
  imports and which is not among the sources. Its attributes are the fixed-cost total, the
  per-minute rate, the free-minutes-used counter, the billed-minutes counter and the plan
  tag; contract.py reads and writes the free-minutes counter as \<^verbatim>\<open>bill.free_min\<close>.\<close>

record Bill =
  billed_min :: int
  free_min :: int
  min_rate :: rat
  fixed_cost :: rat
  plan_tag :: string

text \<open>Modelled from the spec: a bill as the monthly driver creates it, with nothing
  charged and nothing counted.\<close>

definition Bill_init :: Bill where
  "Bill_init = \<lparr>billed_min = 0, free_min = 0, min_rate = 0, fixed_cost = 0, plan_tag = ''''\<rparr>"

text \<open>Modelled from the spec: \<^verbatim>\<open>add_fixed_cost\<close> adds the amount to the fixed-cost total.\<close>

definition add_fixed_cost :: "Bill \<Rightarrow> rat \<Rightarrow> Bill" where
  "add_fixed_cost b cost = b\<lparr>fixed_cost := fixed_cost b + cost\<rparr>"

text \<open>Modelled from the spec: \<^verbatim>\<open>set_rates\<close> records the plan tag and the per-minute rate.\<close>

definition set_rates :: "Bill \<Rightarrow> string \<Rightarrow> rat \<Rightarrow> Bill" where
  "set_rates b contract_type min_cost = b\<lparr>plan_tag := contract_type, min_rate := min_cost\<rparr>"

text \<open>Modelled from the spec: \<^verbatim>\<open>add_free_minutes\<close> and \<^verbatim>\<open>add_billed_minutes\<close>
  increment their counters by the number of minutes.\<close>

definition add_free_minutes :: "Bill \<Rightarrow> int \<Rightarrow> Bill" where
  "add_free_minutes b minutes = b\<lparr>free_min := free_min b + minutes\<rparr>"

definition add_billed_minutes :: "Bill \<Rightarrow> int \<Rightarrow> Bill" where
  "add_billed_minutes b minutes = b\<lparr>billed_min := billed_min b + minutes\<rparr>"

text \<open>Modelled from the spec: \<^verbatim>\<open>get_cost\<close> is the fixed-cost total plus the billed
  minutes times the rate.\<close>

definition get_cost :: "Bill \<Rightarrow> rat" where
  "get_cost b = fixed_cost b + of_int (billed_min b) * min_rate b"

subsection \<open>Constants of contract.py\<close>

definition MTM_MONTHLY_FEE :: rat where "MTM_MONTHLY_FEE = 50"
definition TERM_MONTHLY_FEE :: rat where "TERM_MONTHLY_FEE = 20"
definition TERM_DEPOSIT :: rat where "TERM_DEPOSIT = 300"
definition TERM_MINS :: int where "TERM_MINS = 100"
definition MTM_MINS_COST :: rat where "MTM_MINS_COST = 5 / 100"
definition TERM_MINS_COST :: rat where "TERM_MINS_COST = 1 / 10"
definition PREPAID_MINS_COST :: rat where "PREPAID_MINS_COST = 25 / 1000"

subsection \<open>class Contract\<close>

text \<open>\<^verbatim>\<open>start\<close> is \<open>None\<close> once the base \<^verbatim>\<open>cancel_contract\<close> has cleared it;
  \<^verbatim>\<open>bill\<close> is \<open>None\<close> until a \<^verbatim>\<open>new_month\<close> stores one.\<close>

record Contract =
  start :: "date option"
  bill :: "Bill option"

definition Contract_init :: "date \<Rightarrow> Contract" where
  "Contract_init s = \<lparr>start = Some s, bill = None\<rparr>"

text \<open>\<^verbatim>\<open>self.bill.add_billed_minutes(ceil(call.duration / 60.0))\<close>: the method is
  looked up on \<^verbatim>\<open>self.bill\<close> before the argument is evaluated.\<close>

definition Contract_bill_call ::
  "'a Contract_scheme \<Rightarrow> Call \<Rightarrow> error + 'a Contract_scheme" where
  "Contract_bill_call self call =
     (case bill self of
        None \<Rightarrow> Inl AttributeError
      | Some b \<Rightarrow>
          (case call_minutes (duration call) of
             Inl e \<Rightarrow> Inl e
           | Inr m \<Rightarrow> Inr (self\<lparr>bill := Some (add_billed_minutes b m)\<rparr>)))"

text \<open>\<^verbatim>\<open>self.start = None; return self.bill.get_cost()\<close>. The result is the amount
  and the contract after the call.\<close>

definition Contract_cancel_contract ::
  "'a Contract_scheme \<Rightarrow> error + (rat \<times> 'a Contract_scheme)" where
  "Contract_cancel_contract self =
     (case bill self of
        None \<Rightarrow> Inl AttributeError
      | Some b \<Rightarrow> Inr (get_cost b, self\<lparr>start := None\<rparr>))"

subsection \<open>class TermContract\<close>

text \<open>The attribute \<^verbatim>\<open>end\<close> is named \<open>end_date\<close> here.\<close>

record TermContract = Contract +
  current :: date
  end_date :: date

definition TermContract_init :: "date \<Rightarrow> date \<Rightarrow> TermContract" where
  "TermContract_init s e = \<lparr>start = Some s, bill = None, current = s, end_date = e\<rparr>"

definition TermContract_new_month ::
  "TermContract \<Rightarrow> int \<Rightarrow> int \<Rightarrow> Bill \<Rightarrow> error + TermContract" where
  "TermContract_new_month self m y b =
     (let b1 = b\<lparr>free_min := 0\<rparr>
      in case start self of
           None \<Rightarrow> Inl AttributeError
         | Some s \<Rightarrow>
             (let b2 = (if month s = m \<and> year s = y then add_fixed_cost b1 TERM_DEPOSIT else b1);
                  b3 = set_rates b2 ''TERM'' TERM_MINS_COST;
                  b4 = add_fixed_cost b3 TERM_MONTHLY_FEE
              in case date_new y m 1 of
                   Inl e \<Rightarrow> Inl e
                 | Inr d \<Rightarrow> Inr (self\<lparr>bill := Some b4, current := d\<rparr>)))"

definition TermContract_bill_call :: "TermContract \<Rightarrow> Call \<Rightarrow> error + TermContract" where
  "TermContract_bill_call self call =
     (case call_minutes (duration call) of
        Inl e \<Rightarrow> Inl e
      | Inr call_time \<Rightarrow>
          (case bill self of
             None \<Rightarrow> Inl AttributeError
           | Some b \<Rightarrow>
               (let excess = call_time - (TERM_MINS - free_min b)
                in if free_min b + call_time < TERM_MINS
                   then Inr (self\<lparr>bill := Some (b\<lparr>free_min := free_min b + call_time\<rparr>)\<rparr>)
                   else if free_min b - TERM_MINS \<noteq> 0
                   then (let b1 = b\<lparr>free_min := free_min b + (call_time - excess)\<rparr>;
                             b2 = add_free_minutes b1 (free_min b1);
                             b3 = add_billed_minutes b2 excess
                         in Inr (self\<lparr>bill := Some b3\<rparr>))
                   else Inr (self\<lparr>bill := Some (add_billed_minutes b excess)\<rparr>))))"

definition TermContract_cancel_contract :: "TermContract \<Rightarrow> error + (rat \<times> TermContract)" where
  "TermContract_cancel_contract self =
     (if date_le (end_date self) (current self) then Inr (0, self)
      else Inr (TERM_DEPOSIT - TERM_MONTHLY_FEE, self))"

subsection \<open>class MTMContract\<close>

text \<open>\<^verbatim>\<open>MTMContract\<close> adds no attribute; it inherits \<^verbatim>\<open>bill_call\<close> and
  \<^verbatim>\<open>cancel_contract\<close> from \<^verbatim>\<open>Contract\<close>.\<close>

type_synonym MTMContract = Contract

definition MTMContract_init :: "date \<Rightarrow> MTMContract" where
  "MTMContract_init s = Contract_init s"

definition MTMContract_new_month :: "MTMContract \<Rightarrow> int \<Rightarrow> int \<Rightarrow> Bill \<Rightarrow> error + MTMContract" where
  "MTMContract_new_month self m y b =
     (let b1 = set_rates b ''MTM'' MTM_MINS_COST;
          b2 = add_fixed_cost b1 MTM_MONTHLY_FEE
      in Inr (self\<lparr>bill := Some b2\<rparr>))"

definition MTMContract_bill_call :: "MTMContract \<Rightarrow> Call \<Rightarrow> error + MTMContract" where
  "MTMContract_bill_call = Contract_bill_call"

definition MTMContract_cancel_contract :: "MTMContract \<Rightarrow> error + (rat \<times> MTMContract)" where
  "MTMContract_cancel_contract = Contract_cancel_contract"

subsection \<open>class PrepaidContract\<close>

record PrepaidContract = Contract +
  balance :: rat

definition PrepaidContract_init :: "date \<Rightarrow> int \<Rightarrow> PrepaidContract" where
  "PrepaidContract_init s bal = \<lparr>start = Some s, bill = None, balance = - of_int bal\<rparr>"

definition PrepaidContract_new_month ::
  "PrepaidContract \<Rightarrow> int \<Rightarrow> int \<Rightarrow> Bill \<Rightarrow> error + PrepaidContract" where
  "PrepaidContract_new_month self m y b =
     (let b1 = add_fixed_cost b (balance self)
      in if balance self > - 10
         then Inr (self\<lparr>bill := Some (set_rates (add_fixed_cost b1 25) ''PREPAID'' PREPAID_MINS_COST),
                         balance := balance self - 25\<rparr>)
         else Inr (self\<lparr>bill := Some (set_rates b1 ''PREPAID'' PREPAID_MINS_COST)\<rparr>))"

text \<open>The balance is updated first, then \<^verbatim>\<open>self.bill\<close> is dereferenced.\<close>

definition PrepaidContract_bill_call :: "PrepaidContract \<Rightarrow> Call \<Rightarrow> error + PrepaidContract" where
  "PrepaidContract_bill_call self call =
     (case call_minutes (duration call) of
        Inl e \<Rightarrow> Inl e
      | Inr m \<Rightarrow>
          (case bill self of
             None \<Rightarrow> Inl AttributeError
           | Some b \<Rightarrow>
               Inr (self\<lparr>balance := balance self + of_int m * PREPAID_MINS_COST,
                         bill := Some (add_billed_minutes b m)\<rparr>)))"

definition PrepaidContract_cancel_contract ::
  "PrepaidContract \<Rightarrow> error + (rat \<times> PrepaidContract)" where
  "PrepaidContract_cancel_contract self =
     (if balance self \<le> 0 then Inr (0, self) else Inr (balance self, self))"

subsection \<open>The calls of a month\<close>

text \<open>Modelled from the spec: the loop of the monthly driver, which is not among the
  sources: after \<^verbatim>\<open>new_month\<close> it calls \<^verbatim>\<open>bill_call\<close> once for each call
  of the month, in order. An exception ends the loop.\<close>

fun bill_calls :: "('c \<Rightarrow> Call \<Rightarrow> error + 'c) \<Rightarrow> 'c \<Rightarrow> Call list \<Rightarrow> error + 'c" where
  "bill_calls f c [] = Inr c"
| "bill_calls f c (x # xs) = (case f c x of Inl e \<Rightarrow> Inl e | Inr c' \<Rightarrow> bill_calls f c' xs)"

text \<open>Modelled from the spec: one month of the driver: a fresh bill is created and
  handed to \<^verbatim>\<open>new_month\<close>, then the calls of the month are billed.\<close>

definition run_month ::
  "('c \<Rightarrow> int \<Rightarrow> int \<Rightarrow> Bill \<Rightarrow> error + 'c) \<Rightarrow> ('c \<Rightarrow> Call \<Rightarrow> error + 'c) \<Rightarrow>
   'c \<Rightarrow> int \<Rightarrow> int \<Rightarrow> Call list \<Rightarrow> error + 'c" where
  "run_month new_month bill_call c m y calls =
     (case new_month c m y Bill_init of
        Inl e \<Rightarrow> Inl e
      | Inr c' \<Rightarrow> bill_calls bill_call c' calls)"

subsection \<open>The minutes of a call, as the specification words them\<close>

text \<open>The specification's minutes of a call of \<open>d\<close> seconds: the ceiling of \<open>d / 60\<close>
  over the rationals. It is compared with \<open>call_minutes\<close>, which is the code.\<close>

definition spec_minutes :: "int \<Rightarrow> int" where
  "spec_minutes d = \<lceil>rat_of_int d / 60\<rceil>"

subsection \<open>Dates used in the examples\<close>

abbreviation jan15_2020 :: date where
  "jan15_2020 \<equiv> \<lparr>year = 2020, month = 1, day = 15\<rparr>"

abbreviation jan15_2021 :: date where
  "jan15_2021 \<equiv> \<lparr>year = 2021, month = 1, day = 15\<rparr>"

abbreviation jan1_2020 :: date where
  "jan1_2020 \<equiv> \<lparr>year = 2020, month = 1, day = 1\<rparr>"

section \<open>Properties\<close>

declare bit_length.simps [simp del]

lemmas contract_constants =
  MTM_MONTHLY_FEE_def TERM_MONTHLY_FEE_def TERM_DEPOSIT_def TERM_MINS_def
  MTM_MINS_COST_def TERM_MINS_COST_def PREPAID_MINS_COST_def

lemmas bill_ops =
  add_fixed_cost_def set_rates_def add_free_minutes_def add_billed_minutes_def get_cost_def

subsection \<open>The float conversion is exact below \<open>2^53\<close>\<close>

lemma bit_length_le: "0 < n \<Longrightarrow> n < 2 ^ k \<Longrightarrow> bit_length n \<le> k"
proof (induction k arbitrary: n)
  case 0
  then show ?case by simp
next
  case (Suc k)
  have step: "bit_length n = Suc (bit_length (n div 2))"
    using Suc.prems(1) by (subst bit_length.simps) simp
  show ?case
  proof (cases "n div 2 = 0")
    case True
    then show ?thesis using step by (simp add: bit_length.simps)
  next
    case False
    have "0 \<le> n div 2" using Suc.prems(1) by simp
    then have "0 < n div 2" using False by simp
    moreover have "n div 2 < 2 ^ k" using Suc.prems(2) by simp
    ultimately have "bit_length (n div 2) \<le> k" by (rule Suc.IH)
    then show ?thesis using step by simp
  qed
qed

lemma round_half_even_of_int: "round_half_even (of_int n) = n"
  by (simp add: round_half_even_def)

lemma round_half_even_error: "\<bar>of_int (round_half_even y) - y\<bar> \<le> 1 / 2"
proof -
  have "of_int \<lfloor>y\<rfloor> \<le> y" "y < of_int \<lfloor>y\<rfloor> + 1" by linarith+
  then show ?thesis
    by (auto simp: round_half_even_def Let_def abs_le_iff)
qed

text \<open>An int of at most 53 bits is a double.\<close>

lemma double_round_of_int:
  assumes "0 < d" "d < 2 ^ 53"
  shows "double_round (of_int d) = of_int d"
proof -
  have "bit_length d \<le> 53" using assms by (rule bit_length_le)
  then have be: "binary_exponent \<bar>rat_of_int d\<bar> \<le> 52"
    using assms(1) by (simp add: binary_exponent_def)
  define e where "e = max (binary_exponent \<bar>rat_of_int d\<bar> - 52) (- 1074)"
  have e: "e \<le> 0" using be by (simp add: e_def)
  have s1: "scale2 (rat_of_int d) (- e) = rat_of_int (d * 2 ^ nat (- e))"
    using e by (simp add: scale2_def)
  have s2: "scale2 (rat_of_int (d * 2 ^ nat (- e))) e = rat_of_int d"
    using e by (cases "e = 0") (simp_all add: scale2_def)
  have "double_round (of_int d) =
      scale2 (of_int (round_half_even (scale2 (rat_of_int d) (- e)))) e"
    using assms(1) by (simp add: double_round_def Let_def e_def)
  also have "\<dots> = rat_of_int d"
    by (simp only: s1 round_half_even_of_int s2)
  finally show ?thesis .
qed

lemma binary_exponent_le:
  assumes "0 < x" "x < 2 ^ 48"
  shows "binary_exponent x \<le> 47"
proof (cases "1 \<le> x")
  case True
  have "0 < \<lfloor>x\<rfloor>" using True by simp
  moreover have "\<lfloor>x\<rfloor> < 2 ^ 48" using assms(2) by (simp add: floor_less_iff)
  ultimately have "bit_length \<lfloor>x\<rfloor> \<le> 48" by (rule bit_length_le)
  then show ?thesis using True by (simp add: binary_exponent_def)
next
  case False
  then show ?thesis by (simp add: binary_exponent_def)
qed

text \<open>Below \<open>2^48\<close> the doubles are at most \<open>1/32\<close> apart, so rounding moves a value by at
  most \<open>1/64\<close>.\<close>

lemma double_round_error:
  assumes "0 < x" "x < 2 ^ 48"
  shows "\<bar>double_round x - x\<bar> \<le> 1 / 64"
proof -
  define e where "e = max (binary_exponent \<bar>x\<bar> - 52) (- 1074)"
  define k where "k = nat (- e)"
  have "binary_exponent \<bar>x\<bar> \<le> 47" using assms by (simp add: binary_exponent_le)
  then have e: "e \<le> - 5" by (simp add: e_def)
  then have k: "5 \<le> k" and ek: "e < 0" by (simp_all add: k_def)
  define p :: rat where "p = 2 ^ k"
  have "(2::rat) ^ 5 \<le> 2 ^ k" using k by (intro power_increasing) simp_all
  then have p: "32 \<le> p" by (simp add: p_def)
  have "double_round x = scale2 (of_int (round_half_even (scale2 x (- e)))) e"
    using assms(1) by (simp add: double_round_def Let_def e_def)
  also have "scale2 x (- e) = x * p"
    using ek by (simp add: scale2_def k_def p_def)
  also have "scale2 (of_int (round_half_even (x * p))) e = of_int (round_half_even (x * p)) / p"
    using ek by (simp add: scale2_def k_def p_def)
  finally have dr: "double_round x = of_int (round_half_even (x * p)) / p" .
  have "\<bar>of_int (round_half_even (x * p)) - x * p\<bar> \<le> 1 / 2"
    by (rule round_half_even_error)
  then have "\<bar>of_int (round_half_even (x * p)) / p - x\<bar> \<le> 1 / 2 / p"
    using p by (simp add: abs_le_iff field_simps)
  also have "\<dots> \<le> 1 / 64" using p by (simp add: field_simps)
  finally show ?thesis by (simp add: dr)
qed

lemma int_to_double_exact:
  assumes "0 \<le> d" "d < 2 ^ 53"
  shows "int_to_double d = Inr (of_int d)"
proof (cases "d = 0")
  case True
  then show ?thesis by (simp add: int_to_double_def double_round_def)
next
  case False
  then have "0 < d" using assms(1) by simp
  then have dr: "double_round (of_int d) = of_int d"
    using assms(2) by (rule double_round_of_int)
  have "d < 2 ^ 1024" using assms(2) by (rule less_trans) simp
  then have "rat_of_int d < 2 ^ 1024" by simp
  then show ?thesis using assms(1)
    by (simp add: int_to_double_def dr Let_def)
qed

text \<open>A quotient \<open>d / 60\<close> that is not whole lies at least \<open>1/60\<close> from the whole numbers
  around it, further than rounding moves it.\<close>

lemma ceiling_double_round_div_60:
  assumes "0 \<le> d" "d < 2 ^ 53"
  shows "\<lceil>double_round (rat_of_int d / 60)\<rceil> = \<lceil>rat_of_int d / 60\<rceil>"
proof (cases "d mod 60 = 0")
  case True
  define q where "q = d div 60"
  have d: "d = 60 * q" using True by (auto simp: q_def)
  have x: "rat_of_int d / 60 = rat_of_int q" by (simp add: d)
  show ?thesis
  proof (cases "q = 0")
    case True
    then show ?thesis by (simp add: x double_round_def)
  next
    case False
    then have "0 < q" using assms(1) d by simp
    moreover have "q < 2 ^ 53" using assms(2) d by simp
    ultimately show ?thesis by (simp add: x double_round_of_int)
  qed
next
  case False
  define q where "q = d div 60"
  define r where "r = d mod 60"
  have r: "1 \<le> r" "r \<le> 59"
    using False by (simp_all add: r_def)
  have d: "d = 60 * q + r" by (simp add: q_def r_def)
  define x where "x = rat_of_int d / 60"
  have xq: "x = rat_of_int q + rat_of_int r / 60" by (simp add: x_def d)
  have lo: "rat_of_int q + 1 / 60 \<le> x" using r(1) by (simp add: xq)
  have hi: "x \<le> rat_of_int q + 59 / 60" using r(2) by (simp add: xq)
  have q0: "0 \<le> q" using assms(1) by (simp add: q_def)
  have "0 \<le> rat_of_int q" using q0 by simp
  then have "0 < x" using lo by linarith
  moreover have "x < 2 ^ 48"
  proof -
    have "rat_of_int d < 2 ^ 53" using assms(2) by simp
    then show ?thesis by (simp add: x_def)
  qed
  ultimately have err: "\<bar>double_round x - x\<bar> \<le> 1 / 64" by (rule double_round_error)
  have "rat_of_int q < double_round x" using err lo by linarith
  moreover have "double_round x \<le> rat_of_int q + 1" using err hi by linarith
  ultimately have "\<lceil>double_round x\<rceil> = q + 1" by (intro ceiling_unique) simp_all
  moreover have "\<lceil>x\<rceil> = q + 1" using lo hi by (intro ceiling_unique) simp_all
  ultimately show ?thesis by (simp add: x_def)
qed

lemma call_minutes_2_53: "call_minutes (2 ^ 53) = Inr (spec_minutes (2 ^ 53))"
  by code_simp

lemma call_minutes_spec:
  assumes "0 \<le> d" "d \<le> 2 ^ 53"
  shows "call_minutes d = Inr (spec_minutes d)"
proof (cases "d = 2 ^ 53")
  case True
  then show ?thesis by (simp only: call_minutes_2_53)
next
  case False
  then have "d < 2 ^ 53" using assms(2) by simp
  then show ?thesis using assms(1)
    by (simp add: call_minutes_def int_to_double_exact ceiling_double_round_div_60
        spec_minutes_def)
qed

lemma spec_minutes_values:
  "spec_minutes 9000 = 150" "spec_minutes 6000 = 100" "spec_minutes 3000 = 50"
  "spec_minutes 30 = 1" "spec_minutes 60 = 1" "spec_minutes 61 = 2"
  by (simp_all add: spec_minutes_def ceiling_eq_iff)

lemma call_minutes_values:
  "call_minutes 9000 = Inr 150" "call_minutes 6000 = Inr 100" "call_minutes 3000 = Inr 50"
  "call_minutes 30 = Inr 1" "call_minutes 61 = Inr 2"
  using call_minutes_spec [of 9000] call_minutes_spec [of 6000] call_minutes_spec [of 3000]
    call_minutes_spec [of 30] call_minutes_spec [of 61]
  by (simp_all add: spec_minutes_values)

lemma spec_minutes_nonneg: "0 \<le> d \<Longrightarrow> 0 \<le> spec_minutes d"
  by (simp add: spec_minutes_def)

subsection \<open>What one \<^verbatim>\<open>bill_call\<close> does, given the minutes of the call\<close>

lemma Contract_bill_call_minutes:
  assumes "call_minutes (duration call) = Inr k"
  shows "Contract_bill_call (self\<lparr>bill := Some b\<rparr>) call =
     Inr (self\<lparr>bill := Some (b\<lparr>billed_min := billed_min b + k\<rparr>)\<rparr>)"
  using assms by (simp add: Contract_bill_call_def bill_ops)

lemma PrepaidContract_bill_call_minutes:
  assumes "call_minutes (duration call) = Inr k"
  shows "PrepaidContract_bill_call (self\<lparr>bill := Some b\<rparr>) call =
     Inr (self\<lparr>balance := balance self + of_int k * (25 / 1000),
              bill := Some (b\<lparr>billed_min := billed_min b + k\<rparr>)\<rparr>)"
  using assms by (simp add: PrepaidContract_bill_call_def PREPAID_MINS_COST_def bill_ops)

lemma TermContract_bill_call_minutes:
  assumes "call_minutes (duration call) = Inr k"
  shows "TermContract_bill_call (self\<lparr>bill := Some b\<rparr>) call =
     Inr (self\<lparr>bill := Some
       (if free_min b + k < 100 then b\<lparr>free_min := free_min b + k\<rparr>
        else if free_min b = 100 then b\<lparr>billed_min := billed_min b + k\<rparr>
        else b\<lparr>free_min := 200, billed_min := billed_min b + (k - (100 - free_min b))\<rparr>)\<rparr>)"
  using assms by (simp add: TermContract_bill_call_def TERM_MINS_def bill_ops Let_def)

lemma TermContract_new_month_example:
  "TermContract_new_month (TermContract_init jan15_2020 jan15_2021) 1 2020 Bill_init
     = Inr \<lparr>start = Some jan15_2020,
            bill = Some \<lparr>billed_min = 0, free_min = 0, min_rate = 1 / 10, fixed_cost = 320,
                         plan_tag = ''TERM''\<rparr>,
            current = jan1_2020, end_date = jan15_2021\<rparr>"
  by (simp add: TermContract_new_month_def TermContract_init_def Bill_init_def date_new_def
      days_in_month_def contract_constants bill_ops Let_def)

lemma PrepaidContract_new_month_example:
  "PrepaidContract_new_month (PrepaidContract_init jan15_2020 100) 1 2020 Bill_init
     = Inr \<lparr>start = Some jan15_2020,
            bill = Some \<lparr>billed_min = 0, free_min = 0, min_rate = 25 / 1000,
                         fixed_cost = - 100, plan_tag = ''PREPAID''\<rparr>,
            balance = - 100\<rparr>"
  by (simp add: PrepaidContract_new_month_def PrepaidContract_init_def Bill_init_def
      PREPAID_MINS_COST_def bill_ops Let_def)

lemma MTMContract_new_month_example:
  "MTMContract_new_month (MTMContract_init jan15_2020) 1 2020 Bill_init
     = Inr \<lparr>start = Some jan15_2020,
            bill = Some \<lparr>billed_min = 0, free_min = 0, min_rate = 5 / 100, fixed_cost = 50,
                         plan_tag = ''MTM''\<rparr>\<rparr>"
  by (simp add: MTMContract_new_month_def MTMContract_init_def Contract_init_def Bill_init_def
      contract_constants bill_ops Let_def)

subsection \<open>A month of calls on the base \<^verbatim>\<open>bill_call\<close>\<close>

lemma bill_calls_Contract_bill_call:
  assumes "\<forall>call\<in>set calls. 0 \<le> duration call \<and> duration call \<le> 2 ^ 53"
  shows "bill_calls Contract_bill_call (self\<lparr>bill := Some b\<rparr>) calls =
     Inr (self\<lparr>bill := Some
       (b\<lparr>billed_min := billed_min b + (\<Sum>call\<leftarrow>calls. spec_minutes (duration call))\<rparr>)\<rparr>)"
  using assms
proof (induction calls arbitrary: b)
  case Nil
  then show ?case by simp
next
  case (Cons x xs)
  have k: "call_minutes (duration x) = Inr (spec_minutes (duration x))"
    using Cons.prems by (simp add: call_minutes_spec)
  have rest: "\<forall>call\<in>set xs. 0 \<le> duration call \<and> duration call \<le> 2 ^ 53"
    using Cons.prems by simp
  show ?case
    by (simp add: Contract_bill_call_minutes [OF k] Cons.IH [OF rest] add.assoc)
qed

lemma sum_list_map_mset_cong:
  fixes f :: "'a \<Rightarrow> int"
  assumes "mset xs = mset ys"
  shows "(\<Sum>x\<leftarrow>xs. f x) = (\<Sum>x\<leftarrow>ys. f x)"
proof -
  have "(\<Sum>x\<leftarrow>xs. f x) = sum_mset (image_mset f (mset xs))"
    by (simp add: sum_mset_sum_list [symmetric])
  also have "\<dots> = sum_mset (image_mset f (mset ys))"
    by (simp add: assms)
  also have "\<dots> = (\<Sum>x\<leftarrow>ys. f x)"
    by (simp add: sum_mset_sum_list [symmetric])
  finally show ?thesis .
qed

lemma MTM_month:
  assumes "\<forall>call\<in>set calls. 0 \<le> duration call \<and> duration call \<le> 2 ^ 53"
  shows "run_month MTMContract_new_month MTMContract_bill_call self m y calls =
     Inr (self\<lparr>bill := Some
       \<lparr>billed_min = (\<Sum>call\<leftarrow>calls. spec_minutes (duration call)), free_min = 0,
        min_rate = MTM_MINS_COST, fixed_cost = MTM_MONTHLY_FEE, plan_tag = ''MTM''\<rparr>\<rparr>)"
proof -
  have "run_month MTMContract_new_month MTMContract_bill_call self m y calls =
      bill_calls Contract_bill_call
        (self\<lparr>bill := Some \<lparr>billed_min = 0, free_min = 0, min_rate = MTM_MINS_COST,
                            fixed_cost = MTM_MONTHLY_FEE, plan_tag = ''MTM''\<rparr>\<rparr>) calls"
    by (simp add: run_month_def MTMContract_new_month_def MTMContract_bill_call_def
        Bill_init_def add_fixed_cost_def set_rates_def)
  then show ?thesis
    by (simp add: bill_calls_Contract_bill_call [OF assms])
qed

text \<open>While the pool stays below its limit, TermContract only counts free minutes.\<close>

lemma sum_list_spec_minutes_nonneg:
  assumes "\<forall>call\<in>set calls. 0 \<le> duration call"
  shows "0 \<le> (\<Sum>call\<leftarrow>calls. spec_minutes (duration call))"
  using assms by (induction calls) (simp_all add: spec_minutes_nonneg)

lemma TermContract_calls_below_pool:
  assumes "\<forall>call\<in>set calls. 0 \<le> duration call \<and> duration call \<le> 2 ^ 53"
    and "free_min b + (\<Sum>call\<leftarrow>calls. spec_minutes (duration call)) < 100"
  shows "bill_calls TermContract_bill_call (self\<lparr>bill := Some b\<rparr>) calls =
     Inr (self\<lparr>bill := Some
       (b\<lparr>free_min := free_min b + (\<Sum>call\<leftarrow>calls. spec_minutes (duration call))\<rparr>)\<rparr>)"
  using assms
proof (induction calls arbitrary: b)
  case Nil
  then show ?case by simp
next
  case (Cons x xs)
  have k: "call_minutes (duration x) = Inr (spec_minutes (duration x))"
    using Cons.prems(1) by (simp add: call_minutes_spec)
  have rest: "\<forall>call\<in>set xs. 0 \<le> duration call \<and> duration call \<le> 2 ^ 53"
    using Cons.prems(1) by simp
  then have "0 \<le> (\<Sum>call\<leftarrow>xs. spec_minutes (duration call))"
    by (simp add: sum_list_spec_minutes_nonneg)
  then have first: "free_min b + spec_minutes (duration x) < 100"
    using Cons.prems(2) by simp
  have step: "TermContract_bill_call (self\<lparr>bill := Some b\<rparr>) x =
      Inr (self\<lparr>bill := Some (b\<lparr>free_min := free_min b + spec_minutes (duration x)\<rparr>)\<rparr>)"
    using first by (simp add: TermContract_bill_call_minutes [OF k])
  have below: "free_min (b\<lparr>free_min := free_min b + spec_minutes (duration x)\<rparr>) +
      (\<Sum>call\<leftarrow>xs. spec_minutes (duration call)) < 100"
    using Cons.prems(2) by simp
  show ?case
    by (simp add: step Cons.IH [OF rest below] add.assoc)
qed

lemma call_minutes_above_2_53: "call_minutes 9007199254741021 = Inr 150119987579017"
  by code_simp

lemma spec_minutes_above_2_53: "spec_minutes 9007199254741021 = 150119987579018"
  by (simp add: spec_minutes_def ceiling_eq_iff)

section \<open>The claims\<close>

text \<open>
  C1. The claim: for a TermContract in a month where the free-minute pool is empty, one
  \<^verbatim>\<open>bill_call\<close> of a call of 9000 seconds (150 minutes) leaves the bill with 100 free
  minutes used and 50 billed minutes, each recorded once.

  The code does not do this. The branch that crosses the limit first raises
  \<^verbatim>\<open>bill.free_min\<close> to 100 and then passes that same counter to
  \<^verbatim>\<open>add_free_minutes\<close>, which adds it to itself: the bill ends the call with 200 free
  minutes used (and 50 billed minutes). The theorem runs the first month of a contract with
  this one call, and then the call on any contract whose bill has an empty pool.
\<close>

theorem term_call_of_150_minutes_counts_200_free:
  "run_month TermContract_new_month TermContract_bill_call
      (TermContract_init jan15_2020 jan15_2021) 1 2020 [\<lparr>duration = 9000\<rparr>]
     = Inr \<lparr>start = Some jan15_2020,
            bill = Some \<lparr>billed_min = 50, free_min = 200, min_rate = 1 / 10, fixed_cost = 320,
                         plan_tag = ''TERM''\<rparr>,
            current = jan1_2020, end_date = jan15_2021\<rparr>
   \<and> TermContract_bill_call (self\<lparr>bill := Some (b\<lparr>free_min := 0\<rparr>)\<rparr>) \<lparr>duration = 9000\<rparr>
     = Inr (self\<lparr>bill := Some (b\<lparr>free_min := 200, billed_min := billed_min b + 50\<rparr>)\<rparr>)"
  by (simp add: run_month_def TermContract_new_month_example TermContract_bill_call_def
      call_minutes_values TERM_MINS_def bill_ops Let_def)

text \<open>
  C2. The claim: for a TermContract and every sequence of calls within one month whose
  minutes sum to at most 100, the bill's free minutes used equal that sum and its billed
  minutes are 0.

  The code does not do this when the sum is exactly 100: the call that brings the pool to
  100 takes the flushing branch of C1, and the bill ends with 200 free minutes used. The
  theorem runs the first month of a contract with two calls of 3000 seconds (50 minutes
  each).
\<close>

theorem term_calls_summing_to_100_count_200_free:
  "run_month TermContract_new_month TermContract_bill_call
      (TermContract_init jan15_2020 jan15_2021) 1 2020
      [\<lparr>duration = 3000\<rparr>, \<lparr>duration = 3000\<rparr>]
     = Inr \<lparr>start = Some jan15_2020,
            bill = Some \<lparr>billed_min = 0, free_min = 200, min_rate = 1 / 10, fixed_cost = 320,
                         plan_tag = ''TERM''\<rparr>,
            current = jan1_2020, end_date = jan15_2021\<rparr>"
  by (simp add: run_month_def TermContract_new_month_example TermContract_bill_call_def
      call_minutes_values TERM_MINS_def bill_ops Let_def)

text \<open>
  C3. After a \<^verbatim>\<open>new_month\<close> for month \<open>m\<close> of year \<open>y\<close>, the current-period marker of a
  TermContract is the first day of that month, and \<^verbatim>\<open>cancel_contract\<close> returns 0 when
  the end date is on or before the marker and otherwise the deposit minus the monthly fee,
  which is 280.
\<close>

theorem term_cancel_contract_after_new_month:
  assumes "TermContract_new_month self m y b = Inr c"
  shows "current c = \<lparr>year = y, month = m, day = 1\<rparr> \<and> end_date c = end_date self \<and>
     TermContract_cancel_contract c =
       Inr (if date_le (end_date self) \<lparr>year = y, month = m, day = 1\<rparr> then 0
            else TERM_DEPOSIT - TERM_MONTHLY_FEE, c) \<and>
     TERM_DEPOSIT - TERM_MONTHLY_FEE = 280"
proof -
  obtain s where s: "start self = Some s"
    using assms by (cases "start self") (simp_all add: TermContract_new_month_def Let_def)
  have d: "date_new y m 1 = Inr \<lparr>year = y, month = m, day = 1\<rparr>"
    using assms s
    by (auto simp: TermContract_new_month_def Let_def date_new_def split: if_splits)
  have cur: "current c = \<lparr>year = y, month = m, day = 1\<rparr>" and en: "end_date c = end_date self"
    using assms s d by (auto simp: TermContract_new_month_def Let_def)
  show ?thesis
    by (simp add: cur en TermContract_cancel_contract_def TERM_DEPOSIT_def TERM_MONTHLY_FEE_def)
qed

theorem term_cancel_contract_after_new_month_witness:
  "TermContract_new_month (TermContract_init jan15_2020 jan15_2021) 1 2020 Bill_init
     = Inr \<lparr>start = Some jan15_2020,
            bill = Some \<lparr>billed_min = 0, free_min = 0, min_rate = 1 / 10, fixed_cost = 320,
                         plan_tag = ''TERM''\<rparr>,
            current = jan1_2020, end_date = jan15_2021\<rparr>
   \<and> TermContract_cancel_contract
        \<lparr>start = Some jan15_2020,
         bill = Some \<lparr>billed_min = 0, free_min = 0, min_rate = 1 / 10, fixed_cost = 320,
                      plan_tag = ''TERM''\<rparr>,
         current = jan1_2020, end_date = jan15_2021\<rparr>
     = Inr (280,
        \<lparr>start = Some jan15_2020,
         bill = Some \<lparr>billed_min = 0, free_min = 0, min_rate = 1 / 10, fixed_cost = 320,
                      plan_tag = ''TERM''\<rparr>,
         current = jan1_2020, end_date = jan15_2021\<rparr>)"
  using term_cancel_contract_after_new_month [OF TermContract_new_month_example]
  by (simp add: TermContract_new_month_example date_le_def)

text \<open>
  C4. \<^verbatim>\<open>PrepaidContract.new_month\<close> adds the balance, whatever its sign, to the fixed
  cost of the bill it installs; exactly when the balance is greater than \<open>-10\<close> it also
  lowers the balance by 25 and adds 25 to the fixed cost; it sets the prepaid rate. A contract
  constructed with a top-up of 100 has the balance \<open>-100\<close>; its first \<^verbatim>\<open>new_month\<close>
  recharges nothing and leaves a fresh bill with the fixed cost \<open>-100\<close>.
\<close>

theorem prepaid_new_month_charges_balance:
  "PrepaidContract_new_month self m y b =
     Inr (if - 10 < balance self
          then self\<lparr>bill := Some (b\<lparr>fixed_cost := fixed_cost b + balance self + 25,
                                     min_rate := PREPAID_MINS_COST, plan_tag := ''PREPAID''\<rparr>),
                    balance := balance self - 25\<rparr>
          else self\<lparr>bill := Some (b\<lparr>fixed_cost := fixed_cost b + balance self,
                                     min_rate := PREPAID_MINS_COST, plan_tag := ''PREPAID''\<rparr>)\<rparr>)
   \<and> PrepaidContract_init s 100 = \<lparr>start = Some s, bill = None, balance = - 100\<rparr>
   \<and> PrepaidContract_new_month (PrepaidContract_init s 100) m y Bill_init =
       Inr \<lparr>start = Some s,
            bill = Some \<lparr>billed_min = 0, free_min = 0, min_rate = 25 / 1000, fixed_cost = - 100,
                         plan_tag = ''PREPAID''\<rparr>,
            balance = - 100\<rparr>"
  by (simp add: PrepaidContract_new_month_def PrepaidContract_init_def Bill_init_def
      PREPAID_MINS_COST_def bill_ops Let_def)

text \<open>
  C5. For every PrepaidContract, \<^verbatim>\<open>cancel_contract\<close> returns 0 when the balance is at
  most 0 and the balance itself when it is positive.
\<close>

theorem prepaid_cancel_contract_amount:
  "PrepaidContract_cancel_contract self =
     Inr (if balance self \<le> 0 then 0 else balance self, self)"
  by (simp add: PrepaidContract_cancel_contract_def)

text \<open>
  C6. The claim: for every contract variant, the start date is cleared once
  \<^verbatim>\<open>cancel_contract\<close> has returned.

  The base method, which MTMContract inherits, clears it. The methods of TermContract and
  PrepaidContract override the base method and leave the start date as it was: after the
  first \<^verbatim>\<open>new_month\<close> of a contract started on 15 January 2020, cancelling a term
  contract returns 280 and cancelling a prepaid contract returns 0, both with the start date
  still set, where cancelling a month-to-month contract returns 50 with the start date
  cleared.
\<close>

theorem cancel_contract_keeps_start_of_term_and_prepaid:
  "run_month TermContract_new_month TermContract_bill_call
      (TermContract_init jan15_2020 jan15_2021) 1 2020 []
     = Inr \<lparr>start = Some jan15_2020,
            bill = Some \<lparr>billed_min = 0, free_min = 0, min_rate = 1 / 10, fixed_cost = 320,
                         plan_tag = ''TERM''\<rparr>,
            current = jan1_2020, end_date = jan15_2021\<rparr>
   \<and> TermContract_cancel_contract
        \<lparr>start = Some jan15_2020,
         bill = Some \<lparr>billed_min = 0, free_min = 0, min_rate = 1 / 10, fixed_cost = 320,
                      plan_tag = ''TERM''\<rparr>,
         current = jan1_2020, end_date = jan15_2021\<rparr>
     = Inr (280,
        \<lparr>start = Some jan15_2020,
         bill = Some \<lparr>billed_min = 0, free_min = 0, min_rate = 1 / 10, fixed_cost = 320,
                      plan_tag = ''TERM''\<rparr>,
         current = jan1_2020, end_date = jan15_2021\<rparr>)
   \<and> run_month PrepaidContract_new_month PrepaidContract_bill_call
        (PrepaidContract_init jan15_2020 100) 1 2020 []
     = Inr \<lparr>start = Some jan15_2020,
            bill = Some \<lparr>billed_min = 0, free_min = 0, min_rate = 25 / 1000,
                         fixed_cost = - 100, plan_tag = ''PREPAID''\<rparr>,
            balance = - 100\<rparr>
   \<and> PrepaidContract_cancel_contract
        \<lparr>start = Some jan15_2020,
         bill = Some \<lparr>billed_min = 0, free_min = 0, min_rate = 25 / 1000,
                      fixed_cost = - 100, plan_tag = ''PREPAID''\<rparr>,
         balance = - 100\<rparr>
     = Inr (0,
        \<lparr>start = Some jan15_2020,
         bill = Some \<lparr>billed_min = 0, free_min = 0, min_rate = 25 / 1000,
                      fixed_cost = - 100, plan_tag = ''PREPAID''\<rparr>,
         balance = - 100\<rparr>)
   \<and> run_month MTMContract_new_month MTMContract_bill_call
        (MTMContract_init jan15_2020) 1 2020 []
     = Inr \<lparr>start = Some jan15_2020,
            bill = Some \<lparr>billed_min = 0, free_min = 0, min_rate = 5 / 100, fixed_cost = 50,
                         plan_tag = ''MTM''\<rparr>\<rparr>
   \<and> MTMContract_cancel_contract
        \<lparr>start = Some jan15_2020,
         bill = Some \<lparr>billed_min = 0, free_min = 0, min_rate = 5 / 100, fixed_cost = 50,
                      plan_tag = ''MTM''\<rparr>\<rparr>
     = Inr (50,
        \<lparr>start = None,
         bill = Some \<lparr>billed_min = 0, free_min = 0, min_rate = 5 / 100, fixed_cost = 50,
                      plan_tag = ''MTM''\<rparr>\<rparr>)"
  by (simp add: run_month_def TermContract_new_month_example PrepaidContract_new_month_example
      MTMContract_new_month_example TermContract_cancel_contract_def date_le_def
      PrepaidContract_cancel_contract_def MTMContract_cancel_contract_def
      Contract_cancel_contract_def contract_constants bill_ops)

text \<open>
  C7. The claim: after one \<^verbatim>\<open>new_month\<close> of an MTMContract, for any list of call
  durations, each billed by its own \<^verbatim>\<open>bill_call\<close>, the cost of the bill is the
  monthly fee 50 plus, for each call, the ceiling of its duration over 60 times the rate
  0.05.

  The minutes come from \<^verbatim>\<open>ceil(call.duration / 60.0)\<close>, which is one short of
  the ceiling at the duration \<open>2^53 + 29\<close> (see C8): a month with this one call bills
  150119987579017 minutes, and its cost is not the fee plus the price of 150119987579018
  minutes.
\<close>

theorem mtm_month_cost_one_minute_short_above_2_53:
  "run_month MTMContract_new_month MTMContract_bill_call (MTMContract_init jan15_2020) 1 2020
      [\<lparr>duration = 9007199254741021\<rparr>]
     = Inr \<lparr>start = Some jan15_2020,
            bill = Some \<lparr>billed_min = 150119987579017, free_min = 0, min_rate = 5 / 100,
                         fixed_cost = 50, plan_tag = ''MTM''\<rparr>\<rparr>
   \<and> get_cost \<lparr>billed_min = 150119987579017, free_min = 0, min_rate = 5 / 100,
                fixed_cost = 50, plan_tag = ''MTM''\<rparr>
     \<noteq> 50 + of_int (spec_minutes 9007199254741021) * (5 / 100)"
  by (simp add: run_month_def MTMContract_new_month_example MTMContract_bill_call_def
      Contract_bill_call_def call_minutes_above_2_53 spec_minutes_above_2_53 bill_ops)

text \<open>
  C7, as amended. Let an MTMContract start a month with a fresh bill and let every call of the month,
  in any number and order, be billed by its own \<^verbatim>\<open>bill_call\<close>. Then the cost of the
  bill is the monthly fee 50 plus, for each call, the ceiling of its duration over 60 times
  the rate 0.05. The minutes are rounded up call by call: the month ends in the same state
  for any order of the same calls, and two calls of 30 seconds cost more than one call of 60
  seconds. Durations are taken from 0 to \<open>2^53\<close> seconds, where the code's conversion to
  minutes is the ceiling.
\<close>

theorem mtm_month_cost_rounds_each_call:
  assumes "\<forall>call\<in>set calls. 0 \<le> duration call \<and> duration call \<le> 2 ^ 53"
    and "mset calls' = mset calls"
  shows "run_month MTMContract_new_month MTMContract_bill_call self m y calls =
       Inr (self\<lparr>bill := Some
         \<lparr>billed_min = (\<Sum>call\<leftarrow>calls. spec_minutes (duration call)), free_min = 0,
          min_rate = MTM_MINS_COST, fixed_cost = MTM_MONTHLY_FEE, plan_tag = ''MTM''\<rparr>\<rparr>)
   \<and> get_cost
        \<lparr>billed_min = (\<Sum>call\<leftarrow>calls. spec_minutes (duration call)), free_min = 0,
         min_rate = MTM_MINS_COST, fixed_cost = MTM_MONTHLY_FEE, plan_tag = ''MTM''\<rparr>
     = 50 + (\<Sum>call\<leftarrow>calls. of_int (spec_minutes (duration call)) * (5 / 100))
   \<and> run_month MTMContract_new_month MTMContract_bill_call self m y calls' =
     run_month MTMContract_new_month MTMContract_bill_call self m y calls
   \<and> run_month MTMContract_new_month MTMContract_bill_call self m y
        [\<lparr>duration = 30\<rparr>, \<lparr>duration = 30\<rparr>] \<noteq>
     run_month MTMContract_new_month MTMContract_bill_call self m y [\<lparr>duration = 60\<rparr>]"
proof -
  have set_eq: "set calls' = set calls"
    using assms(2) by (rule mset_eq_setD)
  have bound': "\<forall>call\<in>set calls'. 0 \<le> duration call \<and> duration call \<le> 2 ^ 53"
    using assms(1) by (simp add: set_eq)
  have sum_eq: "(\<Sum>call\<leftarrow>calls'. spec_minutes (duration call)) =
      (\<Sum>call\<leftarrow>calls. spec_minutes (duration call))"
    using assms(2) by (rule sum_list_map_mset_cong)
  have cost: "(\<Sum>call\<leftarrow>calls. rat_of_int (spec_minutes (duration call)) * r) =
      rat_of_int (\<Sum>call\<leftarrow>calls. spec_minutes (duration call)) * r" for r
    by (induction calls) (simp_all add: algebra_simps)
  have c1: "run_month MTMContract_new_month MTMContract_bill_call self m y calls =
       Inr (self\<lparr>bill := Some
         \<lparr>billed_min = (\<Sum>call\<leftarrow>calls. spec_minutes (duration call)), free_min = 0,
          min_rate = MTM_MINS_COST, fixed_cost = MTM_MONTHLY_FEE, plan_tag = ''MTM''\<rparr>\<rparr>)"
    using assms(1) by (rule MTM_month)
  have c2: "get_cost
        \<lparr>billed_min = (\<Sum>call\<leftarrow>calls. spec_minutes (duration call)), free_min = 0,
         min_rate = MTM_MINS_COST, fixed_cost = MTM_MONTHLY_FEE, plan_tag = ''MTM''\<rparr>
     = 50 + (\<Sum>call\<leftarrow>calls. of_int (spec_minutes (duration call)) * (5 / 100))"
    by (simp only: get_cost_def Bill.select_convs MTM_MONTHLY_FEE_def MTM_MINS_COST_def cost)
  have c3: "run_month MTMContract_new_month MTMContract_bill_call self m y calls' =
     run_month MTMContract_new_month MTMContract_bill_call self m y calls"
    by (simp only: MTM_month [OF assms(1)] MTM_month [OF bound'] sum_eq)
  have c4: "run_month MTMContract_new_month MTMContract_bill_call self m y
        [\<lparr>duration = 30\<rparr>, \<lparr>duration = 30\<rparr>] \<noteq>
      run_month MTMContract_new_month MTMContract_bill_call self m y [\<lparr>duration = 60\<rparr>]"
    by (auto simp: MTM_month spec_minutes_values dest: arg_cong [where f = bill])
  show ?thesis
    using c1 c2 c3 c4 by (intro conjI)
qed

theorem mtm_month_cost_rounds_each_call_witness:
  "run_month MTMContract_new_month MTMContract_bill_call (MTMContract_init jan15_2020) 1 2020
      [\<lparr>duration = 30\<rparr>, \<lparr>duration = 30\<rparr>, \<lparr>duration = 61\<rparr>]
     = Inr \<lparr>start = Some jan15_2020,
            bill = Some \<lparr>billed_min = 4, free_min = 0, min_rate = 5 / 100, fixed_cost = 50,
                         plan_tag = ''MTM''\<rparr>\<rparr>
   \<and> get_cost \<lparr>billed_min = 4, free_min = 0, min_rate = 5 / 100, fixed_cost = 50,
               plan_tag = ''MTM''\<rparr> = 50 + 4 * (5 / 100)
   \<and> run_month MTMContract_new_month MTMContract_bill_call (MTMContract_init jan15_2020) 1 2020
      [\<lparr>duration = 61\<rparr>, \<lparr>duration = 30\<rparr>, \<lparr>duration = 30\<rparr>]
     = Inr \<lparr>start = Some jan15_2020,
            bill = Some \<lparr>billed_min = 4, free_min = 0, min_rate = 5 / 100, fixed_cost = 50,
                         plan_tag = ''MTM''\<rparr>\<rparr>"
  using mtm_month_cost_rounds_each_call
    [where calls = "[\<lparr>duration = 30\<rparr>, \<lparr>duration = 30\<rparr>, \<lparr>duration = 61\<rparr>]"
       and calls' = "[\<lparr>duration = 61\<rparr>, \<lparr>duration = 30\<rparr>, \<lparr>duration = 30\<rparr>]"
       and self = "MTMContract_init jan15_2020" and m = 1 and y = 2020]
  by (simp add: spec_minutes_values MTMContract_init_def Contract_init_def
      MTM_MONTHLY_FEE_def MTM_MINS_COST_def)

text \<open>
  C8. The claim: for every call with a non-negative duration of \<open>d\<close> seconds, each
  variant's \<^verbatim>\<open>bill_call\<close> takes as the minutes of the call exactly the ceiling of
  \<open>d / 60\<close>, for all values of \<open>d\<close>.

  The code computes \<^verbatim>\<open>ceil(call.duration / 60.0)\<close> in floating point. The duration
  \<open>2^53 + 29 = 9007199254741021\<close> is not a double: it is rounded to \<open>2^53 + 28\<close>, which is
  \<open>60 * 150119987579017\<close>, so the code bills 150119987579017 minutes where the ceiling is
  150119987579018.
\<close>

theorem call_minutes_one_short_above_2_53:
  "call_minutes 9007199254741021 = Inr 150119987579017
   \<and> spec_minutes 9007199254741021 = 150119987579018
   \<and> MTMContract_bill_call \<lparr>start = Some jan15_2020, bill = Some Bill_init\<rparr>
        \<lparr>duration = 9007199254741021\<rparr>
     = Inr \<lparr>start = Some jan15_2020,
            bill = Some (Bill_init\<lparr>billed_min := 150119987579017\<rparr>)\<rparr>"
  by (simp add: call_minutes_above_2_53 spec_minutes_above_2_53 MTMContract_bill_call_def
      Contract_bill_call_def Bill_init_def bill_ops)

text \<open>
  C8, as amended. For a duration \<open>d\<close> with \<open>0 \<le> d \<le> 2^53\<close> the minutes that
  \<^verbatim>\<open>bill_call\<close> computes are exactly the ceiling of \<open>d / 60\<close>, in each variant: the
  base method (MTMContract) adds them to the billed minutes, PrepaidContract adds them to
  the billed minutes and their price to the balance, and TermContract runs its pool on
  them.
\<close>

theorem bill_call_minutes_exact_up_to_2_53:
  assumes "0 \<le> duration call" "duration call \<le> 2 ^ 53"
  shows "call_minutes (duration call) = Inr (spec_minutes (duration call))
   \<and> MTMContract_bill_call (mc\<lparr>bill := Some b\<rparr>) call =
       Inr (mc\<lparr>bill := Some (b\<lparr>billed_min := billed_min b + spec_minutes (duration call)\<rparr>)\<rparr>)
   \<and> PrepaidContract_bill_call (pc\<lparr>bill := Some b\<rparr>) call =
       Inr (pc\<lparr>balance := balance pc + of_int (spec_minutes (duration call)) * (25 / 1000),
                    bill := Some (b\<lparr>billed_min := billed_min b + spec_minutes (duration call)\<rparr>)\<rparr>)
   \<and> TermContract_bill_call (tc\<lparr>bill := Some b\<rparr>) call =
       Inr (tc\<lparr>bill := Some
         (if free_min b + spec_minutes (duration call) < 100
          then b\<lparr>free_min := free_min b + spec_minutes (duration call)\<rparr>
          else if free_min b = 100
          then b\<lparr>billed_min := billed_min b + spec_minutes (duration call)\<rparr>
          else b\<lparr>free_min := 200,
                 billed_min := billed_min b + (spec_minutes (duration call) - (100 - free_min b))\<rparr>)\<rparr>)"
proof -
  have k: "call_minutes (duration call) = Inr (spec_minutes (duration call))"
    using assms by (rule call_minutes_spec)
  show ?thesis
    unfolding MTMContract_bill_call_def
    using k Contract_bill_call_minutes [OF k] PrepaidContract_bill_call_minutes [OF k]
      TermContract_bill_call_minutes [OF k]
    by simp
qed

theorem bill_call_minutes_exact_up_to_2_53_witness:
  "call_minutes 61 = Inr 2
   \<and> MTMContract_bill_call \<lparr>start = Some jan15_2020, bill = Some Bill_init\<rparr> \<lparr>duration = 61\<rparr>
     = Inr \<lparr>start = Some jan15_2020, bill = Some (Bill_init\<lparr>billed_min := 2\<rparr>)\<rparr>"
  using bill_call_minutes_exact_up_to_2_53
    [where call = "\<lparr>duration = 61\<rparr>" and mc = "\<lparr>start = Some jan15_2020, bill = None\<rparr>"
       and b = Bill_init]
  by (simp add: spec_minutes_values Bill_init_def)

text \<open>
  C9. The claim: on a freshly constructed contract of any variant, with no bill yet,
  \<^verbatim>\<open>bill_call\<close> and \<^verbatim>\<open>cancel_contract\<close> raise an error when they dereference the
  absent bill.

  \<^verbatim>\<open>TermContract.cancel_contract\<close> and \<^verbatim>\<open>PrepaidContract.cancel_contract\<close> never
  touch the bill: on a fresh term contract that ends a year after its start the call returns
  280.
\<close>

theorem term_cancel_contract_without_bill_returns:
  "TermContract_cancel_contract (TermContract_init jan15_2020 jan15_2021) =
     Inr (280, \<lparr>start = Some jan15_2020, bill = None, current = jan15_2020,
                end_date = jan15_2021\<rparr>)"
  by (simp add: TermContract_cancel_contract_def TermContract_init_def date_le_def
      TERM_DEPOSIT_def TERM_MONTHLY_FEE_def)

text \<open>
  C9, as amended. On a freshly constructed contract, with no bill yet, \<^verbatim>\<open>bill_call\<close> of
  every variant raises: AttributeError from the absent bill, or, in TermContract and
  PrepaidContract, which convert the duration first, OverflowError when the duration is too
  large for a float. \<^verbatim>\<open>cancel_contract\<close> of an MTMContract raises AttributeError;
  \<^verbatim>\<open>cancel_contract\<close> of a TermContract or a PrepaidContract returns its amount and
  leaves the contract as it was.
\<close>

theorem fresh_contract_without_bill:
  "MTMContract_bill_call (MTMContract_init s) call = Inl AttributeError
   \<and> TermContract_bill_call (TermContract_init s e) call =
       Inl (case call_minutes (duration call) of Inl x \<Rightarrow> x | Inr k \<Rightarrow> AttributeError)
   \<and> PrepaidContract_bill_call (PrepaidContract_init s top_up) call =
       Inl (case call_minutes (duration call) of Inl x \<Rightarrow> x | Inr k \<Rightarrow> AttributeError)
   \<and> MTMContract_cancel_contract (MTMContract_init s) = Inl AttributeError
   \<and> TermContract_cancel_contract (TermContract_init s e) =
       Inr (if date_le e s then 0 else 280, TermContract_init s e)
   \<and> PrepaidContract_cancel_contract (PrepaidContract_init s top_up) =
       Inr (if 0 \<le> top_up then 0 else - of_int top_up, PrepaidContract_init s top_up)"
  by (simp add: MTMContract_bill_call_def Contract_bill_call_def MTMContract_init_def
      Contract_init_def TermContract_bill_call_def TermContract_init_def
      PrepaidContract_bill_call_def PrepaidContract_init_def MTMContract_cancel_contract_def
      Contract_cancel_contract_def TermContract_cancel_contract_def
      PrepaidContract_cancel_contract_def TERM_DEPOSIT_def TERM_MONTHLY_FEE_def
      split: sum.split)

text \<open>
  C10. \<^verbatim>\<open>cancel_contract\<close> of a TermContract and of a PrepaidContract neither reads nor
  changes the bill: whatever bill the contract holds (or none), the contract comes back
  with that bill as it was, and the amount is the one the end date and the current-period
  marker (term) or the balance (prepaid) give, so nothing charged on the bill enters it.
\<close>

theorem cancel_contract_ignores_bill:
  "TermContract_cancel_contract (tc\<lparr>bill := b\<rparr>) =
     Inr (if date_le (end_date tc) (current tc) then 0 else TERM_DEPOSIT - TERM_MONTHLY_FEE,
          tc\<lparr>bill := b\<rparr>)
   \<and> PrepaidContract_cancel_contract (pc\<lparr>bill := b\<rparr>) =
     Inr (if balance pc \<le> 0 then 0 else balance pc, pc\<lparr>bill := b\<rparr>)"
  by (simp add: TermContract_cancel_contract_def PrepaidContract_cancel_contract_def)

end
